theory Spec2Isabelle
  imports Main "HOL-Library.Sublist"
begin

section \<open>JavaScript values\<close>

text \<open>
  Values that reach the handlers as parsed JSON, plus \<open>undefined\<close>, which a read of a
  missing property yields. Numbers are kept as integers: every number the modelled code
  compares or stores (result codes, attempt counts, millisecond time stamps) is integral.
\<close>

datatype json =
    JUndefined
  | JNull
  | JBool bool
  | JNum int
  | JStr string
  | JArr "json list"
  | JObj "(string \<times> json) list"

text \<open>A thrown JavaScript error is represented by its \<open>message\<close>.\<close>

type_synonym exn = string

section \<open>Documents\<close>

text \<open>
  \<open>src/models/webhook.js\<close>: the notification record. \<open>_id\<close> is \<open>wid\<close> and the schema
  path \<open>type\<close> is \<open>wtype\<close>; a path without a default (\<open>lastAttempt\<close>, \<open>response\<close>,
  \<open>errorMessage\<close>, \<open>transactionId\<close>) is optional. The path \<open>payload\<close> is declared
  \<open>type: Object\<close>, which holds any value: the handlers store objects they build, and the
  C2B \<open>validation\<close> handler stores \<open>request.payload\<close> as it was received.
\<close>

record webhook =
  wid :: nat
  userId :: nat
  transactionId :: "nat option"
  wtype :: string
  status :: string
  payload :: json
  destination :: string
  attempts :: nat
  lastAttempt :: "int option"
  response :: "(nat \<times> json) option"
  errorMessage :: "string option"

text \<open>The \<open>enum\<close> lists of the schema paths \<open>status\<close> and \<open>type\<close>.\<close>

definition webhook_status_enum :: "string list" where
  "webhook_status_enum = [''PENDING'', ''SENT'', ''FAILED'', ''RETRYING'']"

definition webhook_type_enum :: "string list" where
  "webhook_type_enum =
     [''STK'', ''C2B_CONFIRMATION'', ''C2B_VALIDATION'', ''B2C_RESULT'', ''B2C_TIMEOUT'']"

text \<open>
  \<open>src/models/user.js\<close>, the paths the modelled handlers read or write:
  \<open>webhookConfig.secret\<close>, \<open>webhookConfig.endpoints.stkCallback\<close>,
  \<open>mpesaConfig.environment\<close> and the password-reset pair.
\<close>

record user =
  u_id :: nat
  email :: string
  secret :: "string option"
  endpoint_stkCallback :: "string option"
  environment :: string
  resetPasswordToken :: "string option"
  resetPasswordExpires :: "int option"

text \<open>
  \<open>src/models/transaction.js\<close>. The values copied from a callback (\<open>resultCode\<close>,
  \<open>resultDesc\<close>, \<open>mpesaReference\<close>, \<open>callbackData\<close>) are kept as the handler assigns
  them; \<open>mpesaTimestamp\<close> holds the string the handler builds its \<open>Date\<close> from.
\<close>

record transaction =
  t_id :: nat
  t_userId :: nat
  t_type :: string
  amount :: int
  phoneNumber :: string
  t_status :: string
  mpesaReference :: json
  checkoutRequestId :: "string option"
  resultCode :: json
  resultDesc :: json
  mpesaTimestamp :: "string option"
  callbackData :: json

definition transaction_status_enum :: "string list" where
  "transaction_status_enum = [''PENDING'', ''COMPLETED'', ''FAILED'', ''CANCELLED'']"

section \<open>The outside world\<close>

text \<open>The request \<open>sendWebhook\<close> hands to \<open>axios\<close>.\<close>

record http_request =
  url :: string
  content_type :: string
  signature :: string
  timestamp :: string
  webhookId :: nat
  data :: json
  timeout :: nat

text \<open>
  What the destination does with a request and the bytes of its body: it answers with a
  status code and a body, or the transport fails (connection refused, time-out) with a
  message.
\<close>

datatype http_result = HttpResponse nat json | HttpFailure string

text \<open>
  Everything the code obtains from outside itself is a field of the environment: the
  clock, the endpoint's behaviour, the library functions \<open>crypto.createHmac\<close>,
  \<open>JSON.stringify\<close>, \<open>Date.toISOString\<close> and \<open>crypto.randomBytes\<close>, the request
  transform by which axios turns the \<open>data\<close> of a request into the bytes it sends (axios
  is a dependency, not code of this repository), the matching of a
  non-string filter value by the database, the answer of the payment network to a status
  query, \<open>toString\<close> of an array or object, and the faults of the storage layer:
  \<open>db_fault e k = Some m\<close> means that the \<open>k\<close>-th storage operation throws an error
  with message \<open>m\<close>.
\<close>

record env =
  now :: int
  db_fault :: "nat \<Rightarrow> string option"
  http :: "http_request \<Rightarrow> string \<Rightarrow> http_result"
  hmac_sha256_hex :: "string \<Rightarrow> string \<Rightarrow> string"
  JSON_stringify :: "json \<Rightarrow> string"
  toISOString :: "int \<Rightarrow> string"
  randomBytes_hex :: string
  mongo_match :: "json \<Rightarrow> string option \<Rightarrow> bool"
  stk_query :: "string \<Rightarrow> exn + json"
  object_toString :: "json \<Rightarrow> exn + string"
  axios_transformRequest :: "json \<Rightarrow> string"

text \<open>
  Observable effects, in the order they happen: a webhook document written to the store,
  and an HTTP POST handed to the network.
\<close>

datatype event = DbSave webhook | HttpPost http_request

text \<open>
  The collections, the effect trace, and the number of storage operations issued so far.
\<close>

record state =
  webhooks :: "webhook list"
  users :: "user list"
  transactions :: "transaction list"
  trace :: "event list"
  ops :: nat

section \<open>Storage operations\<close>

definition tick :: "state \<Rightarrow> state" where
  "tick s = s\<lparr>ops := ops s + 1\<rparr>"

fun store_put :: "webhook \<Rightarrow> webhook list \<Rightarrow> webhook list" where
  "store_put w [] = [w]"
| "store_put w (x # xs) = (if wid x = wid w then w # xs else x # store_put w xs)"

definition Webhook_findById :: "env \<Rightarrow> state \<Rightarrow> nat \<Rightarrow> (exn + webhook option) \<times> state" where
  "Webhook_findById e s i =
     (case db_fault e (ops s) of
        Some m \<Rightarrow> (Inl m, tick s)
      | None \<Rightarrow> (Inr (find (\<lambda>w. wid w = i) (webhooks s)), tick s))"

text \<open>
  \<open>webhook.save()\<close>. Mongoose validates a document against its schema before it writes:
  a \<open>status\<close> outside the schema's \<open>enum\<close> rejects the save with a validation error and
  nothing is written. \<open>status\<close> is the only constrained path \<open>sendWebhook\<close> assigns.
\<close>

definition Webhook_save :: "env \<Rightarrow> state \<Rightarrow> webhook \<Rightarrow> (exn + unit) \<times> state" where
  "Webhook_save e s w =
     (if status w \<notin> set webhook_status_enum then (Inl ''Webhook validation failed: status'', s)
      else case db_fault e (ops s) of
        Some m \<Rightarrow> (Inl m, tick s)
      | None \<Rightarrow> (Inr (), tick (s\<lparr>webhooks := store_put w (webhooks s),
                                  trace := trace s @ [DbSave w]\<rparr>)))"

definition User_findById :: "env \<Rightarrow> state \<Rightarrow> nat \<Rightarrow> (exn + user option) \<times> state" where
  "User_findById e s i =
     (case db_fault e (ops s) of
        Some m \<Rightarrow> (Inl m, tick s)
      | None \<Rightarrow> (Inr (find (\<lambda>u. u_id u = i) (users s)), tick s))"

section \<open>The webhook service (\<open>src/services/webhook-service.js\<close>)\<close>

text \<open>
  \<open>!user || !user.webhookConfig || !user.webhookConfig.secret\<close>: the secret is usable
  when the user exists and the secret is a non-empty string.
\<close>

definition usable_secret :: "user option \<Rightarrow> string option" where
  "usable_secret uo =
     (case uo of
        None \<Rightarrow> None
      | Some u \<Rightarrow> (case secret u of None \<Rightarrow> None
                  | Some k \<Rightarrow> if k = [] then None else Some k))"

text \<open>Decimal rendering of a number, as in axios' message for a rejected status.\<close>

definition digit :: "nat \<Rightarrow> char" where
  "digit d = ''0123456789'' ! d"

fun dec :: "nat \<Rightarrow> string" where
  "dec n = (if n < 10 then [digit n] else dec (n div 10) @ [digit (n mod 10)])"

declare dec.simps [simp del]

text \<open>The bytes axios sends as the body of a request: its request transform of \<open>config.data\<close>.\<close>

definition request_body :: "env \<Rightarrow> http_request \<Rightarrow> string" where
  "request_body e r = axios_transformRequest e (data r)"

text \<open>
  \<open>axios(config)\<close> with the default \<open>validateStatus\<close>: the promise resolves with status
  and data on a 2xx answer and rejects otherwise.
\<close>

definition axios :: "env \<Rightarrow> http_request \<Rightarrow> exn + (nat \<times> json)" where
  "axios e r =
     (case http e r (request_body e r) of
        HttpFailure m \<Rightarrow> Inl m
      | HttpResponse st body \<Rightarrow>
          if 200 \<le> st \<and> st < 300 then Inr (st, body)
          else Inl (''Request failed with status code '' @ dec st))"

definition maxRetries :: nat where
  "maxRetries = 5"

text \<open>
  Lines 44 to 63 of \<open>sendWebhook\<close>: the signature over \<open>JSON.stringify(webhook.payload)\<close>
  under the user's secret, and the request configuration handed to axios.
\<close>

definition webhook_request :: "env \<Rightarrow> webhook \<Rightarrow> string \<Rightarrow> http_request" where
  "webhook_request e w key =
     (let body = JSON_stringify e (payload w);
          sig = hmac_sha256_hex e key body
      in \<lparr>url = destination w, content_type = ''application/json'',
           signature = sig, timestamp = toISOString e (now e),
           webhookId = wid w, data = payload w, timeout = 10000\<rparr>)"

text \<open>
  Lines 38 to 78: the attempt itself, after both guards. The result is the error thrown
  inside the \<open>try\<close> block, if any, and the state reached.
\<close>

definition sendWebhook_attempt :: "env \<Rightarrow> state \<Rightarrow> webhook \<Rightarrow> string \<Rightarrow> exn option \<times> state" where
  "sendWebhook_attempt e s w key =
     (let w1 = w\<lparr>attempts := attempts w + 1, lastAttempt := Some (now e), status := ''PENDING''\<rparr>
      in case Webhook_save e s w1 of
           (Inl err, s1) \<Rightarrow> (Some err, s1)
         | (Inr _, s1) \<Rightarrow>
             (let req = webhook_request e w1 key;
                  s2 = s1\<lparr>trace := trace s1 @ [HttpPost req]\<rparr>
              in case axios e req of
                   Inl err \<Rightarrow> (Some err, s2)
                 | Inr (st, body) \<Rightarrow>
                     (case Webhook_save e s2 (w1\<lparr>status := ''SENT'', response := Some (st, body)\<rparr>) of
                        (Inl err, s3) \<Rightarrow> (Some err, s3)
                      | (Inr _, s3) \<Rightarrow> (None, s3))))"

text \<open>Lines 15 to 36: the \<open>try\<close> block up to the attempt.\<close>

definition sendWebhook_try :: "env \<Rightarrow> state \<Rightarrow> nat \<Rightarrow> exn option \<times> state" where
  "sendWebhook_try e s i =
     (case Webhook_findById e s i of
        (Inl err, s1) \<Rightarrow> (Some err, s1)
      | (Inr None, s1) \<Rightarrow> (None, s1)
      | (Inr (Some w), s1) \<Rightarrow>
          if status w = ''SENT'' then (None, s1)
          else (case User_findById e s1 (userId w) of
                  (Inl err, s2) \<Rightarrow> (Some err, s2)
                | (Inr uo, s2) \<Rightarrow>
                    (case usable_secret uo of
                       None \<Rightarrow>
                         (case Webhook_save e s2
                                 (w\<lparr>status := ''FAILED'',
                                    errorMessage := Some ''Invalid webhook configuration''\<rparr>) of
                            (Inl err, s3) \<Rightarrow> (Some err, s3)
                          | (Inr _, s3) \<Rightarrow> (None, s3))
                     | Some key \<Rightarrow> sendWebhook_attempt e s2 w key)))"

text \<open>
  Lines 79 to 108: the \<open>catch\<close> block. It reads the document again, records the error,
  and has a \<open>try\<close>/\<open>catch\<close> of its own around that, which only logs.
\<close>

definition sendWebhook_catch :: "env \<Rightarrow> state \<Rightarrow> nat \<Rightarrow> exn \<Rightarrow> exn option \<times> state" where
  "sendWebhook_catch e s i err =
     (case Webhook_findById e s i of
        (Inl updateError, s1) \<Rightarrow> (None, s1)
      | (Inr None, s1) \<Rightarrow> (None, s1)
      | (Inr (Some w), s1) \<Rightarrow>
          (let w1 = w\<lparr>status := ''FAILED'', errorMessage := Some err\<rparr>;
               w2 = (if attempts w1 \<ge> maxRetries then w1\<lparr>status := ''FAILED_PERMANENT''\<rparr> else w1)
           in case Webhook_save e s1 w2 of
                (Inl updateError, s2) \<Rightarrow> (None, s2)
              | (Inr _, s2) \<Rightarrow> (None, s2)))"

text \<open>
  \<open>sendWebhook(webhookId)\<close>. The first component of the result is the error with which
  the returned promise rejects, \<open>None\<close> when it resolves.
\<close>

definition sendWebhook :: "env \<Rightarrow> state \<Rightarrow> nat \<Rightarrow> exn option \<times> state" where
  "sendWebhook e s i =
     (case sendWebhook_try e s i of
        (None, s1) \<Rightarrow> (None, s1)
      | (Some err, s1) \<Rightarrow> sendWebhook_catch e s1 i err)"

text \<open>
  The filter document of \<open>retryFailedWebhooks\<close>:
  \<open>{status: 'FAILED', attempts: {$lt: 5}, lastAttempt: {$lt: new Date(Date.now() - 5*60*1000)}}\<close>.
  A document without \<open>lastAttempt\<close> does not match a \<open>$lt\<close> comparison with a date.
\<close>

definition retry_filter :: "int \<Rightarrow> webhook \<Rightarrow> bool" where
  "retry_filter t w =
     (status w = ''FAILED'' \<and> attempts w < 5 \<and>
      (case lastAttempt w of None \<Rightarrow> False | Some la \<Rightarrow> la < t - 5 * 60 * 1000))"

text \<open>
  \<open>.limit(n)\<close> of a MongoDB query: the first \<open>n\<close> matching documents in the order the
  store yields them; a limit of \<open>0\<close> is no limit.
\<close>

definition mongo_limit :: "nat \<Rightarrow> 'a list \<Rightarrow> 'a list" where
  "mongo_limit n xs = (if n = 0 then xs else take n xs)"

definition Webhook_find_failed :: "env \<Rightarrow> state \<Rightarrow> nat \<Rightarrow> (exn + webhook list) \<times> state" where
  "Webhook_find_failed e s batchSize =
     (case db_fault e (ops s) of
        Some m \<Rightarrow> (Inl m, tick s)
      | None \<Rightarrow> (Inr (mongo_limit batchSize (filter (retry_filter (now e)) (webhooks s))), tick s))"

text \<open>
  \<open>failedWebhooks.map(webhook => this.sendWebhook(webhook._id).catch(...))\<close> awaited with
  \<open>Promise.all\<close>: every selected document gets its own call, and a rejected call is logged
  by its \<open>catch\<close> handler. The calls work on different documents; the model runs them one
  after the other in the order of the selection.
\<close>

fun retry_each :: "env \<Rightarrow> state \<Rightarrow> webhook list \<Rightarrow> state" where
  "retry_each e s [] = s"
| "retry_each e s (w # ws) =
     (case sendWebhook e s (wid w) of
        (None, s1) \<Rightarrow> retry_each e s1 ws
      | (Some err, s1) \<Rightarrow> retry_each e s1 ws)"

text \<open>
  \<open>retryFailedWebhooks(batchSize)\<close>: \<open>Inl\<close> is the error it rethrows, \<open>Inr\<close> the number
  it returns.
\<close>

definition retryFailedWebhooks :: "env \<Rightarrow> state \<Rightarrow> nat \<Rightarrow> (exn + nat) \<times> state" where
  "retryFailedWebhooks e s batchSize =
     (case Webhook_find_failed e s batchSize of
        (Inl err, s1) \<Rightarrow> (Inl err, s1)
      | (Inr failedWebhooks, s1) \<Rightarrow> (Inr (length failedWebhooks), retry_each e s1 failedWebhooks))"

text \<open>The default argument \<open>batchSize = 50\<close>.\<close>

definition retryFailedWebhooks_default :: "env \<Rightarrow> state \<Rightarrow> (exn + nat) \<times> state" where
  "retryFailedWebhooks_default e s = retryFailedWebhooks e s 50"

section \<open>Reading a parsed payload\<close>

text \<open>
  \<open>x.k\<close> for the property names the handlers read (\<open>Body\<close>, \<open>stkCallback\<close>,
  \<open>CheckoutRequestID\<close>, \<open>ResultCode\<close>, \<open>ResultDesc\<close>, \<open>CallbackMetadata\<close>, \<open>Item\<close>,
  \<open>Name\<close>, \<open>Value\<close>): a \<open>TypeError\<close> on \<open>undefined\<close> and \<open>null\<close>, the member or
  \<open>undefined\<close> on an object, \<open>undefined\<close> on every other value.
\<close>

fun js_get :: "json \<Rightarrow> string \<Rightarrow> exn + json" where
  "js_get JUndefined k = Inl (''Cannot read properties of undefined (reading '' @ k @ '')'')"
| "js_get JNull k = Inl (''Cannot read properties of null (reading '' @ k @ '')'')"
| "js_get (JObj kvs) k = Inr (case map_of kvs k of None \<Rightarrow> JUndefined | Some v \<Rightarrow> v)"
| "js_get v k = Inr JUndefined"

fun js_truthy :: "json \<Rightarrow> bool" where
  "js_truthy JUndefined = False"
| "js_truthy JNull = False"
| "js_truthy (JBool b) = b"
| "js_truthy (JNum n) = (n \<noteq> 0)"
| "js_truthy (JStr s) = (s \<noteq> [])"
| "js_truthy (JArr xs) = True"
| "js_truthy (JObj kvs) = True"

text \<open>\<open>items.find(item => item.Name === k)\<close>; only an array has \<open>find\<close>.\<close>

fun items_find :: "string \<Rightarrow> json list \<Rightarrow> exn + json" where
  "items_find k [] = Inr JUndefined"
| "items_find k (x # xs) =
     (case js_get x ''Name'' of
        Inl err \<Rightarrow> Inl err
      | Inr n \<Rightarrow> if n = JStr k then Inr x else items_find k xs)"

definition array_find :: "string \<Rightarrow> json \<Rightarrow> exn + json" where
  "array_find k items =
     (case items of JArr xs \<Rightarrow> items_find k xs | _ \<Rightarrow> Inl ''items.find is not a function'')"

text \<open>
  \<open>v.toString()\<close> of a truthy value; the rendering of arrays and objects is the
  environment's.
\<close>

definition js_toString :: "env \<Rightarrow> json \<Rightarrow> exn + string" where
  "js_toString e v =
     (case v of
        JStr s \<Rightarrow> Inr s
      | JNum n \<Rightarrow> Inr (if n < 0 then ''-'' @ dec (nat (- n)) else dec (nat n))
      | JBool b \<Rightarrow> Inr (if b then ''true'' else ''false'')
      | _ \<Rightarrow> object_toString e v)"

definition substring :: "string \<Rightarrow> nat \<Rightarrow> nat \<Rightarrow> string" where
  "substring s a b = take (b - a) (drop a s)"

section \<open>The STK handlers (\<open>src/api/v1/stk/handlers.js\<close>)\<close>

text \<open>What a handler returns to hapi: a response body, or a Boom error with its status.\<close>

datatype reply = Response "(string \<times> json) list" | Boom nat string

text \<open>
  How the filter \<open>{checkoutRequestId: q}\<close> matches a stored document: a string matches
  the equal string; what any other value matches is the database's affair.
\<close>

definition checkout_matches :: "env \<Rightarrow> json \<Rightarrow> transaction \<Rightarrow> bool" where
  "checkout_matches e q t =
     (case q of
        JStr c \<Rightarrow> checkoutRequestId t = Some c
      | _ \<Rightarrow> mongo_match e q (checkoutRequestId t))"

definition Transaction_findOne :: "env \<Rightarrow> state \<Rightarrow> (transaction \<Rightarrow> bool) \<Rightarrow> (exn + transaction option) \<times> state" where
  "Transaction_findOne e s flt =
     (case db_fault e (ops s) of
        Some m \<Rightarrow> (Inl m, tick s)
      | None \<Rightarrow> (Inr (find flt (transactions s)), tick s))"

fun tx_put :: "transaction \<Rightarrow> transaction list \<Rightarrow> transaction list" where
  "tx_put t [] = [t]"
| "tx_put t (x # xs) = (if t_id x = t_id t then t # xs else x # tx_put t xs)"

text \<open>
  \<open>transaction.save()\<close>, with the schema's \<open>enum\<close> on \<open>status\<close>. A value the schema cannot
  cast is one of the reasons the storage layer may reject the write (\<open>db_fault\<close>).
\<close>

definition Transaction_save :: "env \<Rightarrow> state \<Rightarrow> transaction \<Rightarrow> (exn + unit) \<times> state" where
  "Transaction_save e s t =
     (if t_status t \<notin> set transaction_status_enum
      then (Inl ''Transaction validation failed: status'', s)
      else case db_fault e (ops s) of
        Some m \<Rightarrow> (Inl m, tick s)
      | None \<Rightarrow> (Inr (), tick (s\<lparr>transactions := tx_put t (transactions s)\<rparr>)))"

text \<open>Lines 575 to 577 of \<open>stkCallback\<close>: \<open>callbackData.Body.stkCallback\<close>, with \<open>cbd\<close>
  for the local \<open>callbackData\<close>.\<close>

definition callback_stkCallback :: "json \<Rightarrow> exn + json" where
  "callback_stkCallback cbd =
     (case js_get cbd ''Body'' of
        Inl err \<Rightarrow> Inl err
      | Inr body \<Rightarrow> js_get body ''stkCallback'')"

definition callback_checkoutRequestId :: "json \<Rightarrow> exn + json" where
  "callback_checkoutRequestId cbd =
     (case callback_stkCallback cbd of
        Inl err \<Rightarrow> Inl err
      | Inr cb \<Rightarrow> js_get cb ''CheckoutRequestID'')"

text \<open>
  Lines 600 to 623: the receipt number and the transaction date out of
  \<open>CallbackMetadata.Item\<close>, on a completed transaction.
\<close>

definition extract_metadata :: "env \<Rightarrow> json \<Rightarrow> transaction \<Rightarrow> exn + transaction" where
  "extract_metadata e cb t =
     (case js_get cb ''CallbackMetadata'' of
        Inl err \<Rightarrow> Inl err
      | Inr md \<Rightarrow>
          if \<not> js_truthy md then Inr t
          else (case js_get md ''Item'' of
             Inl err \<Rightarrow> Inl err
           | Inr items \<Rightarrow>
               if \<not> js_truthy items then Inr t
               else (case array_find ''MpesaReceiptNumber'' items of
                  Inl err \<Rightarrow> Inl err
                | Inr receiptItem \<Rightarrow>
                   (case (if js_truthy receiptItem then js_get receiptItem ''Value'' else Inr JUndefined) of
                      Inl err \<Rightarrow> Inl err
                    | Inr rv \<Rightarrow>
                       (let t1 = (if js_truthy receiptItem \<and> js_truthy rv
                                  then t\<lparr>mpesaReference := rv\<rparr> else t)
                        in case array_find ''TransactionDate'' items of
                             Inl err \<Rightarrow> Inl err
                           | Inr dateItem \<Rightarrow>
                              (case (if js_truthy dateItem then js_get dateItem ''Value'' else Inr JUndefined) of
                                 Inl err \<Rightarrow> Inl err
                               | Inr dv \<Rightarrow>
                                  if js_truthy dateItem \<and> js_truthy dv
                                  then (case js_toString e dv of
                                     Inl err \<Rightarrow> Inl err
                                   | Inr dateStr \<Rightarrow>
                                       Inr (t1\<lparr>mpesaTimestamp := Some
                                         (substring dateStr 0 4 @ ''-'' @ substring dateStr 4 6 @ ''-'' @
                                          substring dateStr 6 8 @ ''T'' @ substring dateStr 8 10 @ '':'' @
                                          substring dateStr 10 12 @ '':'' @ substring dateStr 12 14)\<rparr>))
                                  else Inr t1))))))"

text \<open>The \<open>_id\<close> of a new document: an identifier no stored document has.\<close>

definition new_wid :: "webhook list \<Rightarrow> nat" where
  "new_wid ws = Suc (foldr max (map wid ws) 0)"

definition success_ack :: reply where
  "success_ack = Response [(''success'', JBool True)]"

text \<open>
  Lines 630 to 660: the webhook for the client's endpoint, when one is configured. The
  result names the document whose delivery the handler starts without awaiting it.
\<close>

definition stkCallback_notify :: "env \<Rightarrow> state \<Rightarrow> json \<Rightarrow> transaction \<Rightarrow> (exn + nat option) \<times> state" where
  "stkCallback_notify e s cid t =
     (case User_findById e s (t_userId t) of
        (Inl err, s1) \<Rightarrow> (Inl err, s1)
      | (Inr None, s1) \<Rightarrow> (Inr None, s1)
      | (Inr (Some u), s1) \<Rightarrow>
          (case endpoint_stkCallback u of
             None \<Rightarrow> (Inr None, s1)
           | Some dest \<Rightarrow>
               if dest = [] then (Inr None, s1)
               else (let webhook =
                       \<lparr>wid = new_wid (webhooks s1), userId = t_userId t,
                          transactionId = Some (t_id t), wtype = ''STK'', status = ''PENDING'',
                          payload = JObj
                            [(''transactionId'', JNum (int (t_id t))),
                             (''checkoutRequestId'', cid),
                             (''resultCode'', resultCode t),
                             (''resultDesc'', resultDesc t),
                             (''mpesaReference'', mpesaReference t),
                             (''amount'', JNum (amount t)),
                             (''phoneNumber'', JStr (phoneNumber t)),
                             (''status'', JStr (t_status t)),
                             (''timestamp'', case mpesaTimestamp t of None \<Rightarrow> JUndefined
                                              | Some d \<Rightarrow> JStr d)],
                          destination = dest, attempts = 0, lastAttempt = None,
                          response = None, errorMessage = None\<rparr>
                     in case Webhook_save e s1 webhook of
                          (Inl err, s2) \<Rightarrow> (Inl err, s2)
                        | (Inr _, s2) \<Rightarrow> (Inr (Some (wid webhook)), s2))))"

text \<open>Lines 569 to 662: the \<open>try\<close> block of \<open>stkCallback\<close>.\<close>

definition stkCallback_try :: "env \<Rightarrow> state \<Rightarrow> json \<Rightarrow> (exn + reply \<times> nat option) \<times> state" where
  "stkCallback_try e s cbd =
     (case callback_stkCallback cbd of
        Inl err \<Rightarrow> (Inl err, s)
      | Inr cb \<Rightarrow>
     (case js_get cb ''CheckoutRequestID'' of
        Inl err \<Rightarrow> (Inl err, s)
      | Inr cid \<Rightarrow>
     (case Transaction_findOne e s (\<lambda>t. checkout_matches e cid t \<and> t_type t = ''STK'') of
        (Inl err, s1) \<Rightarrow> (Inl err, s1)
      | (Inr None, s1) \<Rightarrow> (Inr (success_ack, None), s1)
      | (Inr (Some t), s1) \<Rightarrow>
     (case js_get cb ''ResultCode'' of
        Inl err \<Rightarrow> (Inl err, s1)
      | Inr rc \<Rightarrow>
     (case js_get cb ''ResultDesc'' of
        Inl err \<Rightarrow> (Inl err, s1)
      | Inr rd \<Rightarrow>
     (let t1 = t\<lparr>callbackData := cbd, resultCode := rc, resultDesc := rd\<rparr>
      in case (if rc = JNum 0 then extract_metadata e cb (t1\<lparr>t_status := ''COMPLETED''\<rparr>)
               else Inr (t1\<lparr>t_status := ''FAILED''\<rparr>)) of
           Inl err \<Rightarrow> (Inl err, s1)
         | Inr t2 \<Rightarrow>
             (case Transaction_save e s1 t2 of
                (Inl err, s2) \<Rightarrow> (Inl err, s2)
              | (Inr _, s2) \<Rightarrow>
                  (case stkCallback_notify e s2 cid t2 of
                     (Inl err, s3) \<Rightarrow> (Inl err, s3)
                   | (Inr spawned, s3) \<Rightarrow> (Inr (success_ack, spawned), s3)))))))))"

text \<open>
  \<open>stkCallback(request, h)\<close> with \<open>cbd\<close> for \<open>request.payload\<close>. The \<open>catch\<close> block
  logs the error and answers as the \<open>try\<close> block does. The result is the reply, the
  webhook whose delivery was started, and the state.
\<close>

definition stkCallback :: "env \<Rightarrow> state \<Rightarrow> json \<Rightarrow> (reply \<times> nat option) \<times> state" where
  "stkCallback e s cbd =
     (case stkCallback_try e s cbd of
        (Inl err, s1) \<Rightarrow> ((Response [(''success'', JBool True)], None), s1)
      | (Inr r, s1) \<Rightarrow> (r, s1))"

text \<open>
  \<open>checkStkStatus(request, h)\<close> with \<open>request.params.checkoutRequestId\<close> and the caller's
  user id. The answer of the payment network to the status query is the environment's.
\<close>

definition checkStkStatus_try :: "env \<Rightarrow> state \<Rightarrow> string \<Rightarrow> nat \<Rightarrow> (exn + reply) \<times> state" where
  "checkStkStatus_try e s cid uid =
     (case Transaction_findOne e s
             (\<lambda>t. t_userId t = uid \<and> checkoutRequestId t = Some cid \<and> t_type t = ''STK'') of
        (Inl err, s1) \<Rightarrow> (Inl err, s1)
      | (Inr None, s1) \<Rightarrow> (Inr (Boom 404 ''Transaction not found''), s1)
      | (Inr (Some t), s1) \<Rightarrow>
     (case User_findById e s1 uid of
        (Inl err, s2) \<Rightarrow> (Inl err, s2)
      | (Inr None, s2) \<Rightarrow> (Inl ''Cannot read properties of null (reading mpesaConfig)'', s2)
      | (Inr (Some u), s2) \<Rightarrow>
     (case stk_query e cid of
        Inl err \<Rightarrow> (Inl err, s2)
      | Inr statusResponse \<Rightarrow>
     (case js_get statusResponse ''ResultCode'' of
        Inl err \<Rightarrow> (Inl err, s2)
      | Inr rc \<Rightarrow>
     (case (if rc \<noteq> JUndefined
            then (case js_get statusResponse ''ResultDesc'' of
                    Inl err \<Rightarrow> (Inl err, s2)
                  | Inr rd \<Rightarrow>
                      (let t1 = t\<lparr>resultCode := rc, resultDesc := rd,
                                  t_status := (if rc = JNum 0 then ''COMPLETED''
                                               else if rc \<in> set [JNum 1, JNum 1032] then ''CANCELLED''
                                               else ''FAILED'')\<rparr>
                       in case Transaction_save e s2 t1 of
                            (Inl err, s3) \<Rightarrow> (Inl err, s3)
                          | (Inr _, s3) \<Rightarrow> (Inr t1, s3)))
            else (Inr t, s2)) of
        (Inl err, s3) \<Rightarrow> (Inl err, s3)
      | (Inr t2, s3) \<Rightarrow>
          (Inr (Response
             [(''success'', JBool True),
              (''data'', JObj [(''transactionId'', JNum (int (t_id t2))),
                              (''checkoutRequestId'', JStr cid),
                              (''status'', JStr (t_status t2)),
                              (''resultCode'', resultCode t2),
                              (''resultDesc'', resultDesc t2)])]), s3))))))"

definition checkStkStatus :: "env \<Rightarrow> state \<Rightarrow> string \<Rightarrow> nat \<Rightarrow> reply \<times> state" where
  "checkStkStatus e s cid uid =
     (case checkStkStatus_try e s cid uid of
        (Inl err, s1) \<Rightarrow> (Boom 500 ''Error checking STK status'', s1)
      | (Inr r, s1) \<Rightarrow> (r, s1))"

section \<open>Password reset request (\<open>src/api/v1/auth/handlers.js\<close>)\<close>







section \<open>Relations between stores\<close>

text \<open>
  \<open>attempts_mono ws ws'\<close>: the store \<open>ws'\<close> holds, position by position, every document
  of \<open>ws\<close> under the same \<open>_id\<close> with an attempt counter that is not smaller; \<open>ws'\<close> may
  hold more documents after them.
\<close>

fun attempts_mono :: "webhook list \<Rightarrow> webhook list \<Rightarrow> bool" where
  "attempts_mono [] ys = True"
| "attempts_mono (x # xs) [] = False"
| "attempts_mono (x # xs) (y # ys) =
     (wid y = wid x \<and> attempts x \<le> attempts y \<and> attempts_mono xs ys)"

section \<open>Reading the effect trace\<close>

fun posts :: "event list \<Rightarrow> http_request list" where
  "posts [] = []"
| "posts (DbSave w # es) = posts es"
| "posts (HttpPost r # es) = r # posts es"

section \<open>Concrete scenarios\<close>

text \<open>
  An environment whose storage never fails and whose endpoint answers \<open>200\<close>, and one
  whose endpoint answers \<open>500\<close>. The library functions are stand-ins.
\<close>

definition env_ok :: env where
  "env_ok = \<lparr>now = 1000000, db_fault = (\<lambda>k. None),
             http = (\<lambda>r b. HttpResponse 200 (JStr ''ok'')),
             hmac_sha256_hex = (\<lambda>k m. k @ m),
             JSON_stringify = (\<lambda>j. ''{}''),
             toISOString = (\<lambda>t. ''T''),
             randomBytes_hex = ''ab'',
             mongo_match = (\<lambda>q f. False),
             stk_query = (\<lambda>c. Inl ''unreachable''),
             object_toString = (\<lambda>v. Inr ''[object Object]''),
             axios_transformRequest = (\<lambda>j. ''{}'')\<rparr>"

definition env_500 :: env where
  "env_500 = env_ok\<lparr>http := (\<lambda>r b. HttpResponse 500 JNull)\<rparr>"

definition wh0 :: webhook where
  "wh0 = \<lparr>wid = 1, userId = 7, transactionId = None, wtype = ''STK'', status = ''PENDING'',
          payload = JObj [(''resultCode'', JNum 0)], destination = ''https://client.example/hook'',
          attempts = 0, lastAttempt = None, response = None, errorMessage = None\<rparr>"

definition usr0 :: user where
  "usr0 = \<lparr>u_id = 7, email = ''a@b.c'', secret = Some ''k'',
           endpoint_stkCallback = Some ''https://client.example/hook'',
           environment = ''sandbox'', resetPasswordToken = None, resetPasswordExpires = None\<rparr>"

definition tx0 :: transaction where
  "tx0 = \<lparr>t_id = 3, t_userId = 7, t_type = ''STK'', amount = 100,
          phoneNumber = ''254700000000'', t_status = ''PENDING'', mpesaReference = JUndefined,
          checkoutRequestId = Some ''ws_CO_1'', resultCode = JUndefined, resultDesc = JUndefined,
          mpesaTimestamp = None, callbackData = JUndefined\<rparr>"

text \<open>A callback of the payment network for a checkout request, with a result code.\<close>

definition stk_payload :: "string \<Rightarrow> int \<Rightarrow> json" where
  "stk_payload c rc =
     JObj [(''Body'', JObj [(''stkCallback'',
       JObj [(''MerchantRequestID'', JStr ''m-1''), (''CheckoutRequestID'', JStr c),
             (''ResultCode'', JNum rc), (''ResultDesc'', JStr ''description'')])])]"

definition st0 :: "webhook list \<Rightarrow> user list \<Rightarrow> state" where
  "st0 ws us = \<lparr>webhooks = ws, users = us, transactions = [], trace = [], ops = 0\<rparr>"



text \<open>The store is unchanged or has received one new document under a new \<open>_id\<close>.\<close>

definition grown :: "webhook list \<Rightarrow> webhook list \<Rightarrow> bool" where
  "grown ws ws' = (ws' = ws \<or> (\<exists>w. wid w = new_wid ws \<and> ws' = store_put w ws))"

text \<open>
  The eligibility predicate as the specification words it: status \<open>failed\<close>, attempts
  below the ceiling, and at least the back-off floor of five minutes since the last
  attempt. (The query of the code is \<open>retry_filter\<close>.)
\<close>

definition eligible :: "int \<Rightarrow> webhook \<Rightarrow> bool" where
  "eligible t w =
     (status w = ''FAILED'' \<and> attempts w < maxRetries \<and>
      (case lastAttempt w of None \<Rightarrow> False | Some la \<Rightarrow> t - la \<ge> 5 * 60 * 1000))"

text \<open>Notifications in the states the scenarios need, and a user without a secret.\<close>

definition wh_sent :: webhook where
  "wh_sent = wh0\<lparr>status := ''SENT'', attempts := 1, lastAttempt := Some 900000,
                 response := Some (200, JStr ''ok'')\<rparr>"

definition wh_permanent :: webhook where
  "wh_permanent = wh0\<lparr>status := ''FAILED_PERMANENT'', attempts := 5, lastAttempt := Some 0\<rparr>"

definition wh_failed1 :: webhook where
  "wh_failed1 = wh0\<lparr>status := ''FAILED'', attempts := 1, lastAttempt := Some 100000\<rparr>"

definition wh_failed3 :: webhook where
  "wh_failed3 = wh0\<lparr>status := ''FAILED'', attempts := 3, lastAttempt := Some 0\<rparr>"

definition wh_failed4 :: webhook where
  "wh_failed4 = wh0\<lparr>status := ''FAILED'', attempts := 4, lastAttempt := Some 0\<rparr>"

definition wh_newer :: webhook where
  "wh_newer = wh0\<lparr>status := ''FAILED'', attempts := 1, lastAttempt := Some 500000\<rparr>"

definition wh_older :: webhook where
  "wh_older = wh0\<lparr>wid := 2, status := ''FAILED'', attempts := 1, lastAttempt := Some 100000\<rparr>"

definition usr_nosecret :: user where
  "usr_nosecret = usr0\<lparr>secret := None\<rparr>"

definition st_tx :: state where
  "st_tx = (st0 [] [usr0])\<lparr>transactions := [tx0]\<rparr>"

text \<open>The payment network answers a status query with result code \<open>1032\<close>.\<close>

definition env_query_1032 :: env where
  "env_query_1032 = env_ok\<lparr>stk_query :=
     (\<lambda>c. Inr (JObj [(''ResultCode'', JNum 1032), (''ResultDesc'', JStr ''Request cancelled by user'')]))\<rparr>"

text \<open>The storage rejects the operation numbered \<open>j\<close> and no other.\<close>

definition env_fault :: "nat \<Rightarrow> env" where
  "env_fault j = env_ok\<lparr>db_fault := (\<lambda>k. if k = j then Some ''storage unavailable'' else None)\<rparr>"

text \<open>A notification whose owner is not in the store, so that no secret is found.\<close>

definition wh_unowned :: webhook where
  "wh_unowned = wh0\<lparr>userId := 8, status := ''FAILED'', attempts := 1, lastAttempt := Some 500000\<rparr>"

text \<open>
  A payload that is a JSON string, and library functions as they treat it:
  \<open>JSON.stringify\<close> of the string \<open>{}\<close> is the string in double quotes, and axios sends a
  string that is itself JSON text as it is.
\<close>

definition quoted :: "string \<Rightarrow> string" where
  "quoted s = CHR 0x22 # s @ [CHR 0x22]"

definition env_text :: env where
  "env_text = env_ok\<lparr>JSON_stringify := (\<lambda>j. case j of JStr s \<Rightarrow> quoted s | _ \<Rightarrow> ''{}''),
                     axios_transformRequest := (\<lambda>j. case j of JStr s \<Rightarrow> s | _ \<Rightarrow> ''{}'')\<rparr>"

definition wh_text :: webhook where
  "wh_text = wh0\<lparr>payload := JStr ''{}''\<rparr>"


section \<open>Auxiliary facts\<close>

lemma find_wid: "find (\<lambda>x. wid x = i) ws = Some w \<Longrightarrow> wid w = i"
  by (induction ws) (auto split: if_splits)

lemma find_store_put: "wid w = j \<Longrightarrow> find (\<lambda>x. wid x = j) (store_put w ws) = Some w"
  by (induction ws) auto


lemma attempts_mono_refl: "attempts_mono ws ws"
  by (induction ws) auto

lemma attempts_mono_trans:
  "attempts_mono xs ys \<Longrightarrow> attempts_mono ys zs \<Longrightarrow> attempts_mono xs zs"
proof (induction xs ys arbitrary: zs rule: attempts_mono.induct)
  case (3 x xs y ys)
  then show ?case by (cases zs) auto
qed auto

lemma attempts_mono_store_put:
  "find (\<lambda>x. wid x = wid w) ws = Some w0 \<Longrightarrow> attempts w0 \<le> attempts w
     \<Longrightarrow> attempts_mono ws (store_put w ws)"
  by (induction ws) (auto simp: attempts_mono_refl split: if_splits)

lemma attempts_mono_set:
  "attempts_mono ws ws' \<Longrightarrow> w \<in> set ws \<Longrightarrow> \<exists>w'\<in>set ws'. wid w' = wid w \<and> attempts w \<le> attempts w'"
  by (induction ws ws' rule: attempts_mono.induct) auto

lemma posts_append: "posts (xs @ ys) = posts xs @ posts ys"
  by (induction xs rule: posts.induct) auto

lemma Webhook_save_mono:
  "find (\<lambda>x. wid x = i) (webhooks s) = Some w0 \<Longrightarrow> wid w = wid w0 \<Longrightarrow> attempts w0 \<le> attempts w
     \<Longrightarrow> attempts_mono (webhooks s) (webhooks (snd (Webhook_save e s w)))"
proof -
  assume a: "find (\<lambda>x. wid x = i) (webhooks s) = Some w0" "wid w = wid w0" "attempts w0 \<le> attempts w"
  from a(1) have "wid w0 = i" by (rule find_wid)
  with a have "find (\<lambda>x. wid x = wid w) (webhooks s) = Some w0" by simp
  then have "attempts_mono (webhooks s) (store_put w (webhooks s))"
    using a(3) by (rule attempts_mono_store_put)
  then show ?thesis
    by (simp add: Webhook_save_def tick_def attempts_mono_refl split: option.splits)
qed

lemma sendWebhook_catch_mono:
  "attempts_mono (webhooks s) (webhooks (snd (sendWebhook_catch e s i err)))"
proof (cases "Webhook_findById e s i")
  case (Pair r s1)
  then have ws: "webhooks s1 = webhooks s"
    by (auto simp: Webhook_findById_def tick_def split: option.splits)
  show ?thesis
  proof (cases r)
    case (Inl m)
    with Pair ws show ?thesis by (simp add: sendWebhook_catch_def attempts_mono_refl)
  next
    case (Inr wo)
    show ?thesis
    proof (cases wo)
      case None
      with Pair Inr ws show ?thesis by (simp add: sendWebhook_catch_def attempts_mono_refl)
    next
      case (Some w)
      with Pair Inr have f: "find (\<lambda>x. wid x = i) (webhooks s1) = Some w"
        by (auto simp: Webhook_findById_def tick_def split: option.splits)
      define w2 where "w2 = (if attempts w \<ge> maxRetries
          then w\<lparr>status := ''FAILED'', errorMessage := Some err, status := ''FAILED_PERMANENT''\<rparr>
          else w\<lparr>status := ''FAILED'', errorMessage := Some err\<rparr>)"
      have "attempts_mono (webhooks s1) (webhooks (snd (Webhook_save e s1 w2)))"
        using f by (rule Webhook_save_mono) (simp_all add: w2_def)
      moreover have "snd (sendWebhook_catch e s i err) = snd (Webhook_save e s1 w2)"
        using Pair Inr Some by (simp add: sendWebhook_catch_def w2_def Let_def split: prod.splits sum.splits)
      ultimately show ?thesis using ws by simp
    qed
  qed
qed

lemma Webhook_save_find:
  "Webhook_save e s w = (Inr u, s1) \<Longrightarrow> find (\<lambda>x. wid x = wid w) (webhooks s1) = Some w"
  by (auto simp: Webhook_save_def tick_def find_store_put split: if_splits option.splits)

lemma sendWebhook_attempt_mono:
  assumes f: "find (\<lambda>x. wid x = i) (webhooks s) = Some w"
  shows "attempts_mono (webhooks s) (webhooks (snd (sendWebhook_attempt e s w key)))"
proof -
  define w1 where "w1 = w\<lparr>attempts := attempts w + 1, lastAttempt := Some (now e), status := ''PENDING''\<rparr>"
  have m1: "attempts_mono (webhooks s) (webhooks (snd (Webhook_save e s w1)))"
    using f by (rule Webhook_save_mono) (simp_all add: w1_def)
  show ?thesis
  proof (cases "Webhook_save e s w1")
    case (Pair r s1)
    show ?thesis
    proof (cases r)
      case (Inl m)
      with Pair m1 show ?thesis by (simp add: sendWebhook_attempt_def w1_def Let_def)
    next
      case (Inr u)
      with Pair have f1: "find (\<lambda>x. wid x = wid w1) (webhooks s1) = Some w1"
        by (auto dest: Webhook_save_find)
      define req where "req = webhook_request e w1 key"
      define s2 where "s2 = s1\<lparr>trace := trace s1 @ [HttpPost req]\<rparr>"
      have f2: "find (\<lambda>x. wid x = wid w1) (webhooks s2) = Some w1" using f1 by (simp add: s2_def)
      have m2: "attempts_mono (webhooks s2) (webhooks (snd (Webhook_save e s2 (w1\<lparr>status := ''SENT'', response := Some rb\<rparr>))))" for rb
        using f2 by (rule Webhook_save_mono) simp_all
      have m12: "attempts_mono (webhooks s) (webhooks s2)" using m1 Pair by (simp add: s2_def)
      show ?thesis
      proof (cases "axios e req")
        case (Inl m)
        with Pair Inr m12 show ?thesis
          by (simp add: sendWebhook_attempt_def w1_def req_def s2_def Let_def)
      next
        case (Inr rb)
        have "snd (sendWebhook_attempt e s w key) = snd (Webhook_save e s2 (w1\<lparr>status := ''SENT'', response := Some rb\<rparr>))"
          using Pair \<open>r = Inr u\<close> Inr
          by (cases rb) (simp add: sendWebhook_attempt_def w1_def req_def s2_def Let_def split: prod.splits sum.splits)
        with m2[of rb] m12 show ?thesis by (metis attempts_mono_trans)
      qed
    qed
  qed
qed

lemma sendWebhook_try_mono:
  "attempts_mono (webhooks s) (webhooks (snd (sendWebhook_try e s i)))"
proof (cases "db_fault e (ops s)")
  case (Some m)
  then show ?thesis by (simp add: sendWebhook_try_def Webhook_findById_def tick_def attempts_mono_refl)
next
  case None
  show ?thesis
  proof (cases "find (\<lambda>w. wid w = i) (webhooks s)")
    case N: None
    with None show ?thesis by (simp add: sendWebhook_try_def Webhook_findById_def tick_def attempts_mono_refl)
  next
    case (Some w)
    have f1: "find (\<lambda>w. wid w = i) (webhooks (tick s)) = Some w" using Some by (simp add: tick_def)
    show ?thesis
    proof (cases "status w = ''SENT''")
      case True
      with None Some show ?thesis by (simp add: sendWebhook_try_def Webhook_findById_def tick_def attempts_mono_refl)
    next
      case False
      show ?thesis
      proof (cases "User_findById e (tick s) (userId w)")
        case (Pair r s2)
        then have ws2: "webhooks s2 = webhooks s"
          by (auto simp: User_findById_def tick_def split: option.splits)
        with Some have f2: "find (\<lambda>w. wid w = i) (webhooks s2) = Some w" by simp
        show ?thesis
        proof (cases r)
          case (Inl m)
          with None Some False Pair ws2 show ?thesis
            by (simp add: sendWebhook_try_def Webhook_findById_def attempts_mono_refl)
        next
          case (Inr uo)
          show ?thesis
          proof (cases "usable_secret uo")
            case N2: None
            have "attempts_mono (webhooks s2) (webhooks (snd (Webhook_save e s2
                    (w\<lparr>status := ''FAILED'', errorMessage := Some ''Invalid webhook configuration''\<rparr>))))"
              using f2 by (rule Webhook_save_mono) simp_all
            with None Some False Pair Inr N2 ws2 show ?thesis
              by (auto simp: sendWebhook_try_def Webhook_findById_def split: prod.splits sum.splits)
          next
            case S2: (Some key)
            have "attempts_mono (webhooks s2) (webhooks (snd (sendWebhook_attempt e s2 w key)))"
              using f2 by (rule sendWebhook_attempt_mono)
            with None Some False Pair Inr S2 ws2 show ?thesis
              by (simp add: sendWebhook_try_def Webhook_findById_def)
          qed
        qed
      qed
    qed
  qed
qed

lemma sendWebhook_mono:
  "attempts_mono (webhooks s) (webhooks (snd (sendWebhook e s i)))"
proof (cases "sendWebhook_try e s i")
  case (Pair r s1)
  have m1: "attempts_mono (webhooks s) (webhooks s1)"
    using sendWebhook_try_mono[of s e i] Pair by simp
  show ?thesis
  proof (cases r)
    case None
    with Pair m1 show ?thesis by (simp add: sendWebhook_def)
  next
    case (Some err)
    with Pair have "snd (sendWebhook e s i) = snd (sendWebhook_catch e s1 i err)"
      by (simp add: sendWebhook_def)
    with m1 sendWebhook_catch_mono[of s1 e i err] show ?thesis
      by (metis attempts_mono_trans)
  qed
qed

lemma retry_each_mono:
  "attempts_mono (webhooks s) (webhooks (retry_each e s ws))"
proof (induction ws arbitrary: s)
  case Nil
  show ?case by (simp add: attempts_mono_refl)
next
  case (Cons w ws)
  obtain r s1 where sw: "sendWebhook e s (wid w) = (r, s1)" by (cases "sendWebhook e s (wid w)")
  then have "attempts_mono (webhooks s) (webhooks s1)"
    using sendWebhook_mono[of s e "wid w"] by simp
  moreover have "retry_each e s (w # ws) = retry_each e s1 ws"
    using sw by (cases r) simp_all
  ultimately show ?case using Cons.IH[of s1] by (metis attempts_mono_trans)
qed

lemma retryFailedWebhooks_mono:
  "attempts_mono (webhooks s) (webhooks (snd (retryFailedWebhooks e s n)))"
  using retry_each_mono[of "tick s" e]
  by (simp add: retryFailedWebhooks_def Webhook_find_failed_def tick_def attempts_mono_refl split: option.splits)


lemma sendWebhook_catch_effect:
  "\<exists>rest. fst (sendWebhook_catch e s i err) = None
     \<and> trace (snd (sendWebhook_catch e s i err)) = trace s @ rest \<and> posts rest = []
     \<and> (\<forall>w. find (\<lambda>x. wid x = i) (webhooks s) = Some w \<longrightarrow>
          (\<exists>w'. find (\<lambda>x. wid x = i) (webhooks (snd (sendWebhook_catch e s i err))) = Some w'
               \<and> attempts w' = attempts w \<and> lastAttempt w' = lastAttempt w))"
  by (auto simp: sendWebhook_catch_def Webhook_findById_def Webhook_save_def tick_def Let_def
        find_store_put dest!: find_wid split: option.splits)

lemma sendWebhook_guarded:
  assumes "db_fault e (ops s) = None" "find (\<lambda>x. wid x = i) (webhooks s) = Some w"
    "status w \<noteq> ''SENT''" "db_fault e (ops s + 1) = None"
    "usable_secret (find (\<lambda>u. u_id u = userId w) (users s)) = Some key"
  shows "sendWebhook e s i =
     (case sendWebhook_attempt e (tick (tick s)) w key of
        (None, s1) \<Rightarrow> (None, s1)
      | (Some err, s1) \<Rightarrow> sendWebhook_catch e s1 i err)"
  using assms
  by (simp add: sendWebhook_def sendWebhook_try_def Webhook_findById_def User_findById_def tick_def)


lemma sendWebhook_attempt_fault:
  assumes "db_fault e (ops s) = Some m"
  shows "sendWebhook_attempt e s w key = (Some m, tick s)"
  using assms by (simp add: sendWebhook_attempt_def Webhook_save_def webhook_status_enum_def Let_def)

lemma sendWebhook_attempt_effect:
  assumes ok: "db_fault e (ops s) = None"
  shows "\<exists>r s1 rest w'. sendWebhook_attempt e s w key = (r, s1)
            \<and> trace s1 = trace s @ DbSave (w\<lparr>attempts := attempts w + 1, lastAttempt := Some (now e), status := ''PENDING''\<rparr>)
                  # HttpPost (webhook_request e (w\<lparr>attempts := attempts w + 1, lastAttempt := Some (now e), status := ''PENDING''\<rparr>) key) # rest
            \<and> posts rest = []
            \<and> find (\<lambda>x. wid x = wid w) (webhooks s1) = Some w'
            \<and> attempts w' = attempts w + 1 \<and> lastAttempt w' = Some (now e)"
  using ok
  by (auto simp: sendWebhook_attempt_def Webhook_save_def webhook_status_enum_def Let_def tick_def
        find_store_put split: sum.splits option.splits)


lemma sendWebhook_accounting_saved:
  assumes g: "db_fault e (ops s) = None" "find (\<lambda>x. wid x = i) (webhooks s) = Some w"
    "status w \<noteq> ''SENT''" "db_fault e (ops s + 1) = None"
    "usable_secret (find (\<lambda>u. u_id u = userId w) (users s)) = Some key"
    and sv: "db_fault e (ops s + 2) = None"
  shows "\<exists>rest w'. trace (snd (sendWebhook e s i)) =
            trace s @ DbSave (w\<lparr>attempts := attempts w + 1, lastAttempt := Some (now e), status := ''PENDING''\<rparr>)
              # HttpPost (webhook_request e (w\<lparr>attempts := attempts w + 1, lastAttempt := Some (now e), status := ''PENDING''\<rparr>) key)
              # rest
          \<and> posts rest = []
          \<and> find (\<lambda>x. wid x = i) (webhooks (snd (sendWebhook e s i))) = Some w'
          \<and> attempts w' = attempts w + 1 \<and> lastAttempt w' = Some (now e)"
proof -
  let ?s2 = "tick (tick s)"
  let ?w1 = "w\<lparr>attempts := attempts w + 1, lastAttempt := Some (now e), status := ''PENDING''\<rparr>"
  have wi: "wid w = i" using g(2) by (rule find_wid)
  have "db_fault e (ops ?s2) = None" using sv by (simp add: tick_def)
  from sendWebhook_attempt_effect[OF this, of w key]
  obtain r s1 rest w' where a: "sendWebhook_attempt e ?s2 w key = (r, s1)"
    and tr: "trace s1 = trace ?s2 @ DbSave ?w1 # HttpPost (webhook_request e ?w1 key) # rest"
    and pr: "posts rest = []"
    and f: "find (\<lambda>x. wid x = wid w) (webhooks s1) = Some w'"
    and at: "attempts w' = attempts w + 1" "lastAttempt w' = Some (now e)"
    by blast
  have tr': "trace s1 = trace s @ DbSave ?w1 # HttpPost (webhook_request e ?w1 key) # rest"
    using tr by (simp add: tick_def)
  show ?thesis
  proof (cases r)
    case None
    then have "snd (sendWebhook e s i) = s1"
      using sendWebhook_guarded[OF g] a by simp
    then show ?thesis using tr' pr f at wi by auto
  next
    case (Some err)
    then have eq: "snd (sendWebhook e s i) = snd (sendWebhook_catch e s1 i err)"
      using sendWebhook_guarded[OF g] a by simp
    from sendWebhook_catch_effect[of e s1 i err]
    obtain rest2 where c: "trace (snd (sendWebhook_catch e s1 i err)) = trace s1 @ rest2"
      "posts rest2 = []"
      "\<forall>w. find (\<lambda>x. wid x = i) (webhooks s1) = Some w \<longrightarrow>
          (\<exists>w'. find (\<lambda>x. wid x = i) (webhooks (snd (sendWebhook_catch e s1 i err))) = Some w'
               \<and> attempts w' = attempts w \<and> lastAttempt w' = lastAttempt w)"
      by blast
    from c(3) f wi obtain w'' where
      w'': "find (\<lambda>x. wid x = i) (webhooks (snd (sendWebhook_catch e s1 i err))) = Some w''"
        "attempts w'' = attempts w'" "lastAttempt w'' = lastAttempt w'"
      by auto
    have "trace (snd (sendWebhook e s i)) =
        trace s @ DbSave ?w1 # HttpPost (webhook_request e ?w1 key) # (rest @ rest2)"
      using eq c(1) tr' by simp
    moreover have "posts (rest @ rest2) = []" using pr c(2) by (simp add: posts_append)
    ultimately show ?thesis using w'' at eq by auto
  qed
qed

lemma sendWebhook_accounting_not_saved:
  assumes g: "db_fault e (ops s) = None" "find (\<lambda>x. wid x = i) (webhooks s) = Some w"
    "status w \<noteq> ''SENT''" "db_fault e (ops s + 1) = None"
    "usable_secret (find (\<lambda>u. u_id u = userId w) (users s)) = Some key"
    and sv: "db_fault e (ops s + 2) = Some m"
  shows "posts (trace (snd (sendWebhook e s i))) = posts (trace s)
       \<and> (\<exists>w'. find (\<lambda>x. wid x = i) (webhooks (snd (sendWebhook e s i))) = Some w'
                \<and> attempts w' = attempts w)"
proof -
  let ?s2 = "tick (tick s)"
  have "db_fault e (ops ?s2) = Some m" using sv by (simp add: tick_def)
  then have a: "sendWebhook_attempt e ?s2 w key = (Some m, tick ?s2)"
    by (rule sendWebhook_attempt_fault)
  then have eq: "snd (sendWebhook e s i) = snd (sendWebhook_catch e (tick ?s2) i m)"
    using sendWebhook_guarded[OF g] by simp
  from sendWebhook_catch_effect[of e "tick ?s2" i m]
  obtain rest2 where c: "trace (snd (sendWebhook_catch e (tick ?s2) i m)) = trace (tick ?s2) @ rest2"
      "posts rest2 = []"
      "\<forall>w. find (\<lambda>x. wid x = i) (webhooks (tick ?s2)) = Some w \<longrightarrow>
          (\<exists>w'. find (\<lambda>x. wid x = i) (webhooks (snd (sendWebhook_catch e (tick ?s2) i m))) = Some w'
               \<and> attempts w' = attempts w \<and> lastAttempt w' = lastAttempt w)"
    by blast
  have "find (\<lambda>x. wid x = i) (webhooks (tick ?s2)) = Some w" using g(2) by (simp add: tick_def)
  with c(3) obtain w' where "find (\<lambda>x. wid x = i) (webhooks (snd (sendWebhook_catch e (tick ?s2) i m))) = Some w'"
     "attempts w' = attempts w" by blast
  moreover have "posts (trace (snd (sendWebhook e s i))) = posts (trace s)"
    using eq c(1,2) by (simp add: posts_append tick_def)
  ultimately show ?thesis using eq by auto
qed













lemma mongo_limit_subset: "set (mongo_limit n xs) \<subseteq> set xs"
  by (auto simp: mongo_limit_def dest: in_set_takeD)




lemma stkCallback_try_ack:
  "stkCallback_try e s p = (Inr (r, sp), s1) \<Longrightarrow> r = success_ack"
  by (auto simp: stkCallback_try_def Let_def split: sum.splits prod.splits option.splits if_splits)

lemma stkCallback_ack: "fst (fst (stkCallback e s p)) = success_ack"
proof (cases "stkCallback_try e s p")
  case (Pair r s1)
  show ?thesis
  proof (cases r)
    case (Inl err)
    with Pair show ?thesis by (simp add: stkCallback_def success_ack_def)
  next
    case (Inr rs)
    with Pair stkCallback_try_ack[of e s p "fst rs" "snd rs" s1] show ?thesis
      by (simp add: stkCallback_def)
  qed
qed

lemma le_foldr_max: "x \<in> set xs \<Longrightarrow> x \<le> foldr max xs (0::nat)"
  by (induction xs) auto

lemma new_wid_fresh: "find (\<lambda>x. wid x = new_wid ws) ws = None"
proof -
  have "\<forall>x\<in>set ws. wid x < new_wid ws"
    using le_foldr_max[of _ "map wid ws"] by (force simp: new_wid_def less_Suc_eq_le)
  then show ?thesis by (auto simp: find_None_iff)
qed

lemma attempts_mono_store_put_new:
  "find (\<lambda>x. wid x = wid w) ws = None \<Longrightarrow> attempts_mono ws (store_put w ws)"
  by (induction ws) (auto split: if_splits)

lemma grown_refl: "grown ws ws"
  by (simp add: grown_def)

lemma grown_mono: "grown ws ws' \<Longrightarrow> attempts_mono ws ws'"
  using new_wid_fresh[of ws]
  by (auto simp: grown_def attempts_mono_refl attempts_mono_store_put_new)

lemma User_findById_state:
  "User_findById e s i = (r, s1) \<Longrightarrow> s1 = tick s"
  by (auto simp: User_findById_def split: option.splits)

lemma Webhook_save_grown:
  "Webhook_save e s1 w = (r, s2) \<Longrightarrow> wid w = new_wid (webhooks s1) \<Longrightarrow>
     grown (webhooks s1) (webhooks s2)"
  by (auto simp: Webhook_save_def tick_def grown_def split: option.splits if_splits)

lemma stkCallback_notify_webhooks:
  "grown (webhooks s) (webhooks (snd (stkCallback_notify e s cid t)))"
proof (cases "User_findById e s (t_userId t)")
  case (Pair r s1)
  then have s1: "s1 = tick s" by (rule User_findById_state)
  have g: "grown (webhooks s) (webhooks s2)"
    if "Webhook_save e (tick s) w = (r', s2)" "wid w = new_wid (webhooks s)" for w r' s2
    using Webhook_save_grown[OF that(1)] that(2) by (simp add: tick_def)
  show ?thesis
    using Pair s1
    by (auto simp: stkCallback_notify_def Let_def grown_refl tick_def[of s, THEN arg_cong[where f=webhooks]]
          split: sum.splits option.splits prod.splits intro: g)
qed

lemma Transaction_save_webhooks:
  "webhooks (snd (Transaction_save e s t)) = webhooks s \<and> trace (snd (Transaction_save e s t)) = trace s"
  by (auto simp: Transaction_save_def tick_def split: option.splits)

lemma Transaction_findOne_state:
  "snd (Transaction_findOne e s flt) = tick s"
  by (auto simp: Transaction_findOne_def split: option.splits)

lemma stkCallback_try_webhooks:
  "grown (webhooks s) (webhooks (snd (stkCallback_try e s p)))"
proof -
  have g0: "grown (webhooks s) (webhooks s)" by (simp add: grown_def)
  have g1: "grown (webhooks s) (webhooks (tick s))" by (simp add: grown_def tick_def)
  have g2: "grown (webhooks s) (webhooks (snd (Transaction_save e (tick s) t)))" for t
    by (simp add: Transaction_save_webhooks grown_def tick_def)
  have g3: "grown (webhooks s) (webhooks (snd (stkCallback_notify e (snd (Transaction_save e (tick s) t)) cid t')))" for t cid t'
    using stkCallback_notify_webhooks[of "snd (Transaction_save e (tick s) t)" e cid t']
    by (simp add: Transaction_save_webhooks tick_def)
  show ?thesis
    unfolding stkCallback_try_def Let_def
    using g0 g1 g2 g3 Transaction_findOne_state[of e s]
    by (auto split: sum.splits prod.splits option.splits if_splits
          dest!: arg_cong[where f=snd] simp: )
qed


lemma stkCallback_mono:
  "attempts_mono (webhooks s) (webhooks (snd (stkCallback e s p)))"
  using stkCallback_try_webhooks[of s e p, THEN grown_mono]
  by (cases "stkCallback_try e s p") (auto simp: stkCallback_def split: sum.splits)

lemma stkCallback_unmatched:
  assumes "\<forall>cid. callback_checkoutRequestId p = Inr cid \<longrightarrow>
             find (\<lambda>t. checkout_matches e cid t \<and> t_type t = ''STK'') (transactions s) = None"
  shows "fst (stkCallback e s p) = (success_ack, None)
       \<and> transactions (snd (stkCallback e s p)) = transactions s
       \<and> webhooks (snd (stkCallback e s p)) = webhooks s
       \<and> trace (snd (stkCallback e s p)) = trace s"
  using assms
  by (auto simp: stkCallback_def stkCallback_try_def callback_checkoutRequestId_def
        Transaction_findOne_def success_ack_def tick_def
        split: sum.splits option.splits)

lemma retry_filter_eligible: "retry_filter t w \<Longrightarrow> eligible t w"
  by (auto simp: retry_filter_def eligible_def maxRetries_def split: option.splits)

lemma sweep_selection_l:
  assumes "fst (Webhook_find_failed e s n) = Inr sel"
  shows "(\<forall>w\<in>set sel. eligible (now e) w)
       \<and> (0 < n \<longrightarrow> length sel \<le> n)
       \<and> subseq sel (webhooks s)
       \<and> (\<exists>rest. filter (retry_filter (now e)) (webhooks s) = sel @ rest)
       \<and> fst (retryFailedWebhooks e s n) = Inr (length sel)"
proof -
  let ?m = "filter (retry_filter (now e)) (webhooks s)"
  from assms have ok: "db_fault e (ops s) = None" and sel: "sel = mongo_limit n ?m"
    by (auto simp: Webhook_find_failed_def split: option.splits)
  have "set sel \<subseteq> set ?m" unfolding sel by (rule mongo_limit_subset)
  then have 1: "\<forall>w\<in>set sel. eligible (now e) w" by (auto intro: retry_filter_eligible)
  have 2: "0 < n \<longrightarrow> length sel \<le> n" by (simp add: sel mongo_limit_def)
  have "subseq sel ?m" by (simp add: sel mongo_limit_def sublist_imp_subseq)
  then have 3: "subseq sel (webhooks s)" by (rule subseq_order.trans) simp
  have 4: "\<exists>rest. ?m = sel @ rest"
    by (cases "n = 0") (auto simp: sel mongo_limit_def intro: exI[of _ "drop n ?m"])
  have 5: "fst (retryFailedWebhooks e s n) = Inr (length sel)"
    using ok by (simp add: retryFailedWebhooks_def Webhook_find_failed_def sel)
  from 1 2 3 4 5 show ?thesis by blast
qed







lemma sendWebhook_missing_secret_l:
  assumes "db_fault e (ops s) = None" "db_fault e (ops s + 1) = None" "db_fault e (ops s + 2) = None"
    and f: "find (\<lambda>x. wid x = i) (webhooks s) = Some w" and "status w \<noteq> ''SENT''"
    and "usable_secret (find (\<lambda>u. u_id u = userId w) (users s)) = None"
  shows "fst (sendWebhook e s i) = None
     \<and> webhooks (snd (sendWebhook e s i)) =
         store_put (w\<lparr>status := ''FAILED'', errorMessage := Some ''Invalid webhook configuration''\<rparr>) (webhooks s)
     \<and> find (\<lambda>x. wid x = i) (webhooks (snd (sendWebhook e s i))) =
         Some (w\<lparr>status := ''FAILED'', errorMessage := Some ''Invalid webhook configuration''\<rparr>)
     \<and> trace (snd (sendWebhook e s i)) = trace s @
         [DbSave (w\<lparr>status := ''FAILED'', errorMessage := Some ''Invalid webhook configuration''\<rparr>)]
     \<and> posts (trace (snd (sendWebhook e s i))) = posts (trace s)"
proof -
  have wi: "wid w = i" using f by (rule find_wid)
  show ?thesis
    using assms wi
    by (simp add: sendWebhook_def sendWebhook_try_def Webhook_findById_def User_findById_def
        Webhook_save_def tick_def webhook_status_enum_def find_store_put posts_append)
qed
















lemmas run_defs =
  sendWebhook_def sendWebhook_try_def sendWebhook_catch_def sendWebhook_attempt_def
  Webhook_findById_def User_findById_def Webhook_save_def tick_def usable_secret_def
  webhook_status_enum_def axios_def webhook_request_def maxRetries_def Let_def
  env_ok_def env_500_def st0_def wh0_def usr0_def dec.simps digit_def

lemmas scenario_defs =
  wh_sent_def wh_permanent_def wh_failed1_def wh_failed3_def wh_failed4_def wh_newer_def
  wh_older_def usr_nosecret_def st_tx_def tx0_def stk_payload_def env_query_1032_def
  env_fault_def wh_unowned_def wh_text_def env_text_def quoted_def


section \<open>Delivery engine\<close>

text \<open>
  C1, as the code has it. The guard of \<open>sendWebhook\<close> is \<open>status === 'SENT'\<close>: for a
  notification whose stored status is \<open>SENT\<close>, a call whose lookup of the record
  succeeds is a no-op. It rejects nothing, transmits nothing, and leaves the attempt
  counter and the whole record unchanged: the state after the call is the state before
  it with one more storage operation counted.
\<close>

theorem sendWebhook_sent_noop:
  assumes "db_fault e (ops s) = None"
    and "find (\<lambda>x. wid x = i) (webhooks s) = Some w"
    and "status w = ''SENT''"
  shows "sendWebhook e s i = (None, tick s)
       \<and> webhooks (snd (sendWebhook e s i)) = webhooks s
       \<and> trace (snd (sendWebhook e s i)) = trace s"
  using assms
  by (simp add: sendWebhook_def sendWebhook_try_def Webhook_findById_def tick_def)

theorem sendWebhook_sent_noop_witness:
  "db_fault env_ok (ops (st0 [wh_sent] [usr0])) = None
   \<and> find (\<lambda>x. wid x = 1) (webhooks (st0 [wh_sent] [usr0])) = Some wh_sent
   \<and> status wh_sent = ''SENT''
   \<and> webhooks (snd (sendWebhook env_ok (st0 [wh_sent] [usr0]) 1)) = [wh_sent]
   \<and> trace (snd (sendWebhook env_ok (st0 [wh_sent] [usr0]) 1)) = []"
  using sendWebhook_sent_noop [of env_ok "st0 [wh_sent] [usr0]" 1 wh_sent]
  by (simp add: env_ok_def st0_def wh_sent_def wh0_def tick_def)

text \<open>
  C1 as stated fails for the other terminal status. A stored notification with status
  \<open>FAILED_PERMANENT\<close> and five attempts is delivered again: the call transmits one
  request, the counter becomes six and the status \<open>SENT\<close>.
\<close>

theorem sendWebhook_failed_permanent_counterexample:
  "status wh_permanent = ''FAILED_PERMANENT''
   \<and> map attempts (webhooks (st0 [wh_permanent] [usr0])) = [5]
   \<and> map attempts (webhooks (snd (sendWebhook env_ok (st0 [wh_permanent] [usr0]) 1))) = [6]
   \<and> map status (webhooks (snd (sendWebhook env_ok (st0 [wh_permanent] [usr0]) 1))) = [''SENT'']
   \<and> length (posts (trace (snd (sendWebhook env_ok (st0 [wh_permanent] [usr0]) 1)))) = 1"
  by (simp add: run_defs scenario_defs)

text \<open>
  Why the lookup has to succeed: when the first lookup throws, the \<open>catch\<close> block reads
  the record again and marks it \<open>FAILED\<close>, also when it was \<open>SENT\<close>.
\<close>

lemma sendWebhook_sent_lookup_fault:
  "map status (webhooks (snd (sendWebhook (env_fault 0) (st0 [wh_sent] [usr0]) 1))) = [''FAILED'']
   \<and> posts (trace (snd (sendWebhook (env_fault 0) (st0 [wh_sent] [usr0]) 1))) = []"
  by (simp add: run_defs scenario_defs)

text \<open>
  C2, as the code has it. When the owner of a notification that is not \<open>SENT\<close> has no
  usable signing secret and the storage performs the three operations of the call,
  \<open>sendWebhook\<close> returns normally, sets the status to \<open>FAILED\<close> (not to a permanent
  failure), records the message \<open>Invalid webhook configuration\<close>, changes nothing else
  of the record, and transmits nothing. The record then matches the retry query exactly
  when its untouched attempt counter is below five and its untouched last attempt is
  older than the cool-down.
\<close>

theorem sendWebhook_missing_secret:
  assumes "db_fault e (ops s) = None" and "db_fault e (ops s + 1) = None"
    and "db_fault e (ops s + 2) = None"
    and "find (\<lambda>x. wid x = i) (webhooks s) = Some w"
    and "status w \<noteq> ''SENT''"
    and "usable_secret (find (\<lambda>u. u_id u = userId w) (users s)) = None"
  shows "fst (sendWebhook e s i) = None
       \<and> find (\<lambda>x. wid x = i) (webhooks (snd (sendWebhook e s i))) =
           Some (w\<lparr>status := ''FAILED'', errorMessage := Some ''Invalid webhook configuration''\<rparr>)
       \<and> posts (trace (snd (sendWebhook e s i))) = posts (trace s)
       \<and> (\<forall>t. retry_filter t (w\<lparr>status := ''FAILED'',
                                  errorMessage := Some ''Invalid webhook configuration''\<rparr>)
              = (attempts w < 5 \<and> (\<exists>la. lastAttempt w = Some la \<and> la < t - 5 * 60 * 1000)))"
proof -
  have "\<forall>t. retry_filter t (w\<lparr>status := ''FAILED'',
                                  errorMessage := Some ''Invalid webhook configuration''\<rparr>)
              = (attempts w < 5 \<and> (\<exists>la. lastAttempt w = Some la \<and> la < t - 5 * 60 * 1000))"
    by (auto simp: retry_filter_def split: option.splits)
  with sendWebhook_missing_secret_l [OF assms] show ?thesis by blast
qed

theorem sendWebhook_missing_secret_witness:
  "db_fault env_ok (ops (st0 [wh0] [usr_nosecret])) = None
   \<and> db_fault env_ok (ops (st0 [wh0] [usr_nosecret]) + 1) = None
   \<and> db_fault env_ok (ops (st0 [wh0] [usr_nosecret]) + 2) = None
   \<and> find (\<lambda>x. wid x = 1) (webhooks (st0 [wh0] [usr_nosecret])) = Some wh0
   \<and> status wh0 \<noteq> ''SENT''
   \<and> usable_secret (find (\<lambda>u. u_id u = userId wh0) (users (st0 [wh0] [usr_nosecret]))) = None
   \<and> find (\<lambda>x. wid x = 1) (webhooks (snd (sendWebhook env_ok (st0 [wh0] [usr_nosecret]) 1))) =
       Some (wh0\<lparr>status := ''FAILED'', errorMessage := Some ''Invalid webhook configuration''\<rparr>)
   \<and> posts (trace (snd (sendWebhook env_ok (st0 [wh0] [usr_nosecret]) 1))) = []"
  using sendWebhook_missing_secret [of env_ok "st0 [wh0] [usr_nosecret]" 1 wh0]
  by (simp add: env_ok_def st0_def wh0_def usr0_def usr_nosecret_def usable_secret_def)

text \<open>
  C2 as stated fails twice. The owner of the notification has no secret; after the call
  the status is \<open>FAILED\<close>, which is not the permanent failure, and a sweep that follows
  selects the notification and processes it again.
\<close>

theorem missing_secret_counterexample:
  "usable_secret (find (\<lambda>u. u_id u = userId wh_failed1) (users (st0 [wh_failed1] [usr_nosecret]))) = None
   \<and> map status (webhooks (snd (sendWebhook env_ok (st0 [wh_failed1] [usr_nosecret]) 1))) = [''FAILED'']
   \<and> ''FAILED'' \<noteq> ''FAILED_PERMANENT''
   \<and> fst (retryFailedWebhooks env_ok (snd (sendWebhook env_ok (st0 [wh_failed1] [usr_nosecret]) 1)) 50)
       = Inr 1"
  by (simp add: run_defs scenario_defs retryFailedWebhooks_def Webhook_find_failed_def
        mongo_limit_def retry_filter_def)

text \<open>
  C3, evaluated on the code. A delivery that fails on the fourth attempt leaves the stored
  status \<open>FAILED\<close>. On the fifth failure the \<open>catch\<close> block assigns \<open>FAILED_PERMANENT\<close>,
  which the \<open>enum\<close> of the schema path \<open>status\<close> does not list; the save is rejected,
  its error is only logged, and the stored record keeps the in-flight status \<open>PENDING\<close>
  with five attempts and no error message.
\<close>

theorem sendWebhook_ceiling_evaluation:
  "map status (webhooks (snd (sendWebhook env_500 (st0 [wh_failed3] [usr0]) 1))) = [''FAILED'']
   \<and> map attempts (webhooks (snd (sendWebhook env_500 (st0 [wh_failed3] [usr0]) 1))) = [4]
   \<and> map status (webhooks (snd (sendWebhook env_500 (st0 [wh_failed4] [usr0]) 1))) = [''PENDING'']
   \<and> map attempts (webhooks (snd (sendWebhook env_500 (st0 [wh_failed4] [usr0]) 1))) = [5]
   \<and> map errorMessage (webhooks (snd (sendWebhook env_500 (st0 [wh_failed4] [usr0]) 1))) = [None]
   \<and> ''FAILED_PERMANENT'' \<notin> set webhook_status_enum"
  by (simp add: run_defs scenario_defs)

text \<open>
  C7. For a call that passes both guards (the record is found and is not \<open>SENT\<close>, the
  owner's secret is found), \<open>sendWebhook\<close> writes the record with the counter increased
  by exactly one, the last-attempt time set to the clock and the status \<open>PENDING\<close>, and
  this write is the effect immediately before the one HTTP transmission of the call;
  afterwards the stored counter is the old one plus one. If the storage rejects that
  write, nothing is transmitted and the stored counter is the old one. And over every
  operation that writes notifications (\<open>sendWebhook\<close>, \<open>retryFailedWebhooks\<close>,
  \<open>stkCallback\<close>) the attempt counter of every stored notification never decreases.
\<close>

theorem attempt_accounting:
  "(db_fault e (ops s) = None \<and> find (\<lambda>x. wid x = i) (webhooks s) = Some w
      \<and> status w \<noteq> ''SENT'' \<and> db_fault e (ops s + 1) = None
      \<and> usable_secret (find (\<lambda>u. u_id u = userId w) (users s)) = Some key
    \<longrightarrow>
      (db_fault e (ops s + 2) = None \<longrightarrow>
         (\<exists>rest w'. trace (snd (sendWebhook e s i)) =
              trace s @
              DbSave (w\<lparr>attempts := attempts w + 1, lastAttempt := Some (now e),
                        status := ''PENDING''\<rparr>)
              # HttpPost (webhook_request e
                   (w\<lparr>attempts := attempts w + 1, lastAttempt := Some (now e),
                      status := ''PENDING''\<rparr>) key)
              # rest
            \<and> posts rest = []
            \<and> find (\<lambda>x. wid x = i) (webhooks (snd (sendWebhook e s i))) = Some w'
            \<and> attempts w' = attempts w + 1 \<and> lastAttempt w' = Some (now e)))
      \<and> (db_fault e (ops s + 2) \<noteq> None \<longrightarrow>
            posts (trace (snd (sendWebhook e s i))) = posts (trace s)
          \<and> (\<exists>w'. find (\<lambda>x. wid x = i) (webhooks (snd (sendWebhook e s i))) = Some w'
                 \<and> attempts w' = attempts w)))
   \<and> attempts_mono (webhooks s) (webhooks (snd (sendWebhook e s i)))
   \<and> attempts_mono (webhooks s) (webhooks (snd (retryFailedWebhooks e s n)))
   \<and> attempts_mono (webhooks s) (webhooks (snd (stkCallback e s p)))
   \<and> (\<forall>x\<in>set (webhooks s). \<exists>y\<in>set (webhooks (snd (sendWebhook e s i))).
          wid y = wid x \<and> attempts x \<le> attempts y)"
proof -
  have m: "attempts_mono (webhooks s) (webhooks (snd (sendWebhook e s i)))"
    by (rule sendWebhook_mono)
  have "\<forall>x\<in>set (webhooks s). \<exists>y\<in>set (webhooks (snd (sendWebhook e s i))).
          wid y = wid x \<and> attempts x \<le> attempts y"
    using attempts_mono_set [OF m] by blast
  moreover have "db_fault e (ops s + 2) \<noteq> None \<longrightarrow>
            posts (trace (snd (sendWebhook e s i))) = posts (trace s)
          \<and> (\<exists>w'. find (\<lambda>x. wid x = i) (webhooks (snd (sendWebhook e s i))) = Some w'
                 \<and> attempts w' = attempts w)"
    if "db_fault e (ops s) = None" "find (\<lambda>x. wid x = i) (webhooks s) = Some w"
      "status w \<noteq> ''SENT''" "db_fault e (ops s + 1) = None"
      "usable_secret (find (\<lambda>u. u_id u = userId w) (users s)) = Some key"
    using sendWebhook_accounting_not_saved [OF that] by auto
  ultimately show ?thesis
    using m sendWebhook_accounting_saved [of e s i w key]
      retryFailedWebhooks_mono [of s e n] stkCallback_mono [of s e p]
    by blast
qed

theorem attempt_accounting_witness:
  "db_fault env_500 (ops (st0 [wh0] [usr0])) = None
   \<and> find (\<lambda>x. wid x = 1) (webhooks (st0 [wh0] [usr0])) = Some wh0
   \<and> status wh0 \<noteq> ''SENT''
   \<and> db_fault env_500 (ops (st0 [wh0] [usr0]) + 1) = None
   \<and> usable_secret (find (\<lambda>u. u_id u = userId wh0) (users (st0 [wh0] [usr0]))) = Some ''k''
   \<and> db_fault env_500 (ops (st0 [wh0] [usr0]) + 2) = None
   \<and> (\<exists>rest w'. trace (snd (sendWebhook env_500 (st0 [wh0] [usr0]) 1)) =
          trace (st0 [wh0] [usr0]) @
          DbSave (wh0\<lparr>attempts := attempts wh0 + 1, lastAttempt := Some (now env_500),
                      status := ''PENDING''\<rparr>)
          # HttpPost (webhook_request env_500
               (wh0\<lparr>attempts := attempts wh0 + 1, lastAttempt := Some (now env_500),
                    status := ''PENDING''\<rparr>) ''k'')
          # rest
        \<and> posts rest = []
        \<and> find (\<lambda>x. wid x = 1) (webhooks (snd (sendWebhook env_500 (st0 [wh0] [usr0]) 1))) = Some w'
        \<and> attempts w' = attempts wh0 + 1 \<and> lastAttempt w' = Some (now env_500))
   \<and> attempts_mono (webhooks (st0 [wh0] [usr0]))
        (webhooks (snd (retryFailedWebhooks env_500 (st0 [wh0] [usr0]) 50)))
   \<and> db_fault (env_fault 2) (ops (st0 [wh0] [usr0]) + 2) \<noteq> None
   \<and> posts (trace (snd (sendWebhook (env_fault 2) (st0 [wh0] [usr0]) 1))) = []
   \<and> (\<exists>w'. find (\<lambda>x. wid x = 1) (webhooks (snd (sendWebhook (env_fault 2) (st0 [wh0] [usr0]) 1))) = Some w'
          \<and> attempts w' = attempts wh0)"
proof -
  have h: "db_fault env_500 (ops (st0 [wh0] [usr0])) = None
   \<and> find (\<lambda>x. wid x = 1) (webhooks (st0 [wh0] [usr0])) = Some wh0
   \<and> status wh0 \<noteq> ''SENT''
   \<and> db_fault env_500 (ops (st0 [wh0] [usr0]) + 1) = None
   \<and> usable_secret (find (\<lambda>u. u_id u = userId wh0) (users (st0 [wh0] [usr0]))) = Some ''k''"
    and h2: "db_fault env_500 (ops (st0 [wh0] [usr0]) + 2) = None"
    by (simp_all add: env_500_def env_ok_def st0_def wh0_def usr0_def usable_secret_def)
  have g: "db_fault (env_fault 2) (ops (st0 [wh0] [usr0])) = None
   \<and> find (\<lambda>x. wid x = 1) (webhooks (st0 [wh0] [usr0])) = Some wh0
   \<and> status wh0 \<noteq> ''SENT''
   \<and> db_fault (env_fault 2) (ops (st0 [wh0] [usr0]) + 1) = None
   \<and> usable_secret (find (\<lambda>u. u_id u = userId wh0) (users (st0 [wh0] [usr0]))) = Some ''k''"
    and g2: "db_fault (env_fault 2) (ops (st0 [wh0] [usr0]) + 2) \<noteq> None"
    and p0: "posts (trace (st0 [wh0] [usr0])) = []"
    by (simp_all add: env_fault_def env_ok_def st0_def wh0_def usr0_def usable_secret_def)
  from attempt_accounting [of "env_fault 2" "st0 [wh0] [usr0]" 1 wh0 "''k''" 50 JNull] g g2
  have "posts (trace (snd (sendWebhook (env_fault 2) (st0 [wh0] [usr0]) 1))) =
          posts (trace (st0 [wh0] [usr0]))"
    and "\<exists>w'. find (\<lambda>x. wid x = 1) (webhooks (snd (sendWebhook (env_fault 2) (st0 [wh0] [usr0]) 1))) = Some w'
          \<and> attempts w' = attempts wh0"
    by blast+
  with attempt_accounting [of env_500 "st0 [wh0] [usr0]" 1 wh0 "''k''" 50 JNull] h h2 g2 p0
  show ?thesis by simp
qed







section \<open>Retry scheduler\<close>

text \<open>
  C4, as the code has it. When the query of the sweep succeeds, every selected
  notification satisfies the eligibility predicate (status failed, attempts below the
  ceiling, at least five minutes since the last attempt), so none is inside the cool-down
  window; for a positive \<open>batchSize\<close> at most \<open>batchSize\<close> are selected; they are the
  first matches of the query in the order the store yields them (no ordering by last
  attempt is applied); and the sweep returns the number selected.
\<close>

theorem sweep_selection:
  assumes "fst (Webhook_find_failed e s n) = Inr sel"
  shows "(\<forall>w\<in>set sel. eligible (now e) w)
       \<and> (0 < n \<longrightarrow> length sel \<le> n)
       \<and> subseq sel (webhooks s)
       \<and> (\<exists>rest. filter (retry_filter (now e)) (webhooks s) = sel @ rest)
       \<and> fst (retryFailedWebhooks e s n) = Inr (length sel)"
  using assms by (rule sweep_selection_l)

theorem sweep_selection_witness:
  "fst (Webhook_find_failed env_ok (st0 [wh_newer, wh_older] [usr0]) 1) = Inr [wh_newer]
   \<and> (0::nat) < 1
   \<and> eligible (now env_ok) wh_newer
   \<and> length [wh_newer] \<le> 1
   \<and> fst (retryFailedWebhooks env_ok (st0 [wh_newer, wh_older] [usr0]) 1) = Inr 1"
proof -
  have h: "fst (Webhook_find_failed env_ok (st0 [wh_newer, wh_older] [usr0]) 1) = Inr [wh_newer]"
    by (simp add: Webhook_find_failed_def mongo_limit_def retry_filter_def env_ok_def st0_def
          wh_newer_def wh_older_def wh0_def)
  from sweep_selection [OF h] h show ?thesis by simp
qed

text \<open>
  C4 as stated fails on the order and on the bound. Two notifications are eligible and the
  one attempted last comes first in the store: with \<open>batchSize = 1\<close> the sweep selects
  that one and leaves the one with the oldest last attempt. With \<open>batchSize = 0\<close> the
  query has no limit and the sweep processes both.
\<close>

theorem sweep_order_counterexample:
  "fst (Webhook_find_failed env_ok (st0 [wh_newer, wh_older] [usr0]) 1) = Inr [wh_newer]
   \<and> eligible (now env_ok) wh_older
   \<and> lastAttempt wh_older = Some 100000 \<and> lastAttempt wh_newer = Some 500000
   \<and> fst (retryFailedWebhooks env_ok (st0 [wh_newer, wh_older] [usr0]) 0) = Inr 2"
  by (simp add: Webhook_find_failed_def retryFailedWebhooks_def mongo_limit_def retry_filter_def
        eligible_def maxRetries_def env_ok_def st0_def wh_newer_def wh_older_def wh0_def)

section \<open>Inbound callback adapter\<close>

text \<open>
  C5. For every payload, every state and every behaviour of the storage, \<open>stkCallback\<close>
  replies with the success acknowledgement. When the payload carries no readable
  \<open>CheckoutRequestID\<close>, or no stored STK transaction matches it, the handler changes no
  transaction, creates no notification, starts no delivery and causes no effect.
\<close>

theorem stkCallback_always_acknowledges:
  "fst (fst (stkCallback e s p)) = success_ack
   \<and> ((\<forall>cid. callback_checkoutRequestId p = Inr cid \<longrightarrow>
          find (\<lambda>t. checkout_matches e cid t \<and> t_type t = ''STK'') (transactions s) = None)
       \<longrightarrow> snd (fst (stkCallback e s p)) = None
         \<and> transactions (snd (stkCallback e s p)) = transactions s
         \<and> webhooks (snd (stkCallback e s p)) = webhooks s
         \<and> trace (snd (stkCallback e s p)) = trace s)"
  using stkCallback_ack [of e s p] stkCallback_unmatched [of p e s]
  by (cases "fst (stkCallback e s p)") auto

theorem stkCallback_always_acknowledges_witness:
  "callback_checkoutRequestId (stk_payload ''ws_CO_2'' 0) = Inr (JStr ''ws_CO_2'')
   \<and> find (\<lambda>t. checkout_matches env_ok (JStr ''ws_CO_2'') t \<and> t_type t = ''STK'') (transactions st_tx) = None
   \<and> fst (stkCallback env_ok st_tx (stk_payload ''ws_CO_2'' 0)) = (success_ack, None)
   \<and> transactions (snd (stkCallback env_ok st_tx (stk_payload ''ws_CO_2'' 0))) = [tx0]
   \<and> webhooks (snd (stkCallback env_ok st_tx (stk_payload ''ws_CO_2'' 0))) = []
   \<and> fst (fst (stkCallback (env_fault 1) st_tx JNull)) = success_ack"
proof -
  have c: "callback_checkoutRequestId (stk_payload ''ws_CO_2'' 0) = Inr (JStr ''ws_CO_2'')"
    by (simp add: callback_checkoutRequestId_def callback_stkCallback_def stk_payload_def)
  have f: "find (\<lambda>t. checkout_matches env_ok (JStr ''ws_CO_2'') t \<and> t_type t = ''STK'') (transactions st_tx) = None"
    by (simp add: checkout_matches_def st_tx_def st0_def tx0_def)
  have s0: "transactions st_tx = [tx0]" "webhooks st_tx = []"
    by (simp_all add: st_tx_def st0_def)
  from stkCallback_always_acknowledges [of env_ok st_tx "stk_payload ''ws_CO_2'' 0"] c f
  have "fst (fst (stkCallback env_ok st_tx (stk_payload ''ws_CO_2'' 0))) = success_ack"
    "snd (fst (stkCallback env_ok st_tx (stk_payload ''ws_CO_2'' 0))) = None"
    "transactions (snd (stkCallback env_ok st_tx (stk_payload ''ws_CO_2'' 0))) = transactions st_tx"
    "webhooks (snd (stkCallback env_ok st_tx (stk_payload ''ws_CO_2'' 0))) = webhooks st_tx"
    by auto
  moreover have "fst (fst (stkCallback (env_fault 1) st_tx JNull)) = success_ack"
    using stkCallback_always_acknowledges [of "env_fault 1" st_tx JNull] by blast
  ultimately show ?thesis using c f s0
    by (cases "fst (stkCallback env_ok st_tx (stk_payload ''ws_CO_2'' 0))") auto
qed

text \<open>
  C6, evaluated on the code. \<open>stkCallback\<close> maps result code \<open>0\<close> to \<open>COMPLETED\<close> and
  every other code to \<open>FAILED\<close>: a callback with the user-cancelled codes \<open>1032\<close> or \<open>1\<close>
  leaves the transaction \<open>FAILED\<close>. The status query \<open>checkStkStatus\<close> maps the same code
  \<open>1032\<close> to \<open>CANCELLED\<close>, a member of the transaction schema's status enumeration.
\<close>

theorem stkCallback_cancel_code_evaluation:
  "map t_status (transactions (snd (stkCallback env_ok st_tx (stk_payload ''ws_CO_1'' 0)))) = [''COMPLETED'']
   \<and> map t_status (transactions (snd (stkCallback env_ok st_tx (stk_payload ''ws_CO_1'' 1032)))) = [''FAILED'']
   \<and> map t_status (transactions (snd (stkCallback env_ok st_tx (stk_payload ''ws_CO_1'' 1)))) = [''FAILED'']
   \<and> map t_status (transactions (snd (checkStkStatus env_query_1032 st_tx ''ws_CO_1'' 7))) = [''CANCELLED'']
   \<and> ''CANCELLED'' \<in> set transaction_status_enum"
  by (simp add: stkCallback_def stkCallback_try_def callback_stkCallback_def extract_metadata_def
        Transaction_findOne_def checkout_matches_def Transaction_save_def
        transaction_status_enum_def stkCallback_notify_def new_wid_def
        checkStkStatus_def checkStkStatus_try_def run_defs scenario_defs)

section \<open>Password reset request\<close>




end
